theory Spec2Isabelle
  imports Complex_Main "HOL-Library.Word"
begin

section \<open>Data model of beater/journalbeat.go\<close>

text \<open>
  A \<open>common.MapStr\<close> is a Go map from field names to values of any type. The values
  the beater reads back are strings and 64-bit integers; everything else a map may hold
  (floats, nested maps) is \<open>VOther\<close>. A key that is absent reads as the nil interface,
  here \<open>None\<close>.
\<close>

datatype val = VStr string | VInt int | VOther

type_synonym MapStr = "string \<rightharpoonup> val"

text \<open>
  A Go panic is a value of the model. \<open>TypeAssertionPanic f\<close> is the failed unchecked type
  assertion on field \<open>f\<close>; \<open>NilPointerPanic\<close> is a method call on a metrics object that
  \<open>Run\<close> never allocated.
\<close>

datatype error = TypeAssertionPanic string | NilPointerPanic

text \<open>The unchecked assertions \<open>x.(string)\<close> and \<open>x.(int64)\<close>: \<open>None\<close> where Go panics.\<close>

fun assertString :: "val option \<Rightarrow> string option" where
  "assertString (Some (VStr s)) = Some s"
| "assertString _ = None"

fun assertInt64 :: "val option \<Rightarrow> int option" where
  "assertInt64 (Some (VInt i)) = Some i"
| "assertInt64 _ = None"

text \<open>
  Clock readings and durations are counts of nanoseconds. \<open>time\<close> of a \<open>LogBuffer\<close> is
  the reading of \<open>time.Now()\<close> stored in it.
\<close>

record LogBuffer =
  time :: int
  logEvent :: MapStr
  logType :: string

record Config =
  FlushLogInterval :: int
  MetricsEnabled :: bool
  DefaultType :: string

text \<open>
  The part of the \<open>Journalbeat\<close> struct that the buffering code touches. \<open>client\<close> is
  the sequence of events handed to \<open>client.PublishEvent\<close>, oldest first; \<open>cursorChan\<close> is
  the sequence of values sent on the channel of that name, oldest first (a send is taken to
  complete, that is, the cursor writer is receiving). The two metrics objects are
  \<open>None\<close> while they are nil.
\<close>

record Journalbeat =
  config :: Config
  client :: "MapStr list"
  cursorChan :: "string list"
  journalTypeOutstandingLogBuffer :: "string \<rightharpoonup> LogBuffer"
  logMessagesPublished :: "int option"
  logMessageDelay :: "int option"

definition microseconds :: int where
  "microseconds = 1000000"

definition microsToNanos :: int where
  "microsToNanos = 1000"

section \<open>Go arithmetic and the time package\<close>

text \<open>Go's \<open>/\<close> and \<open>%\<close> on integers truncate towards zero.\<close>

definition quo :: "int \<Rightarrow> int \<Rightarrow> int" where
  "quo a b = sgn a * sgn b * (\<bar>a\<bar> div \<bar>b\<bar>)"

definition rem :: "int \<Rightarrow> int \<Rightarrow> int" where
  "rem a b = a - b * quo a b"

definition minDuration :: int where
  "minDuration = - (2 ^ 63)"

definition maxDuration :: int where
  "maxDuration = 2 ^ 63 - 1"

text \<open>\<open>t.Sub(u)\<close>: the difference as a Duration, saturating at the ends of int64.\<close>

definition Sub :: "int \<Rightarrow> int \<Rightarrow> int" where
  "Sub t u = max minDuration (min maxDuration (t - u))"

text \<open>
  \<open>d.Seconds()\<close> is \<open>float64(d / Second) + float64(d % Second) / 1e9\<close>. The model computes
  it in exact rational arithmetic: the rounding of float64 is not modelled.
\<close>

definition Seconds :: "int \<Rightarrow> rat" where
  "Seconds d = of_int (quo d 1000000000) + of_int (rem d 1000000000) / 1000000000"

text \<open>\<open>t.Unix()\<close>: whole seconds since the epoch, rounded down.\<close>

definition Unix_seconds :: "int \<Rightarrow> int" where
  "Unix_seconds t = t div 1000000000"

section \<open>The buffering engine\<close>

text \<open>
  The test of line 204, \<open>newLogMessage != "" && (newLogMessage[0] == ' ' ||
  newLogMessage[0] == '\t')\<close>. A Go string is a sequence of bytes, as a HOL string is.
\<close>

definition startsWithSpaceOrTab :: "string \<Rightarrow> bool" where
  "startsWithSpaceOrTab newLogMessage =
     (newLogMessage \<noteq> [] \<and> (newLogMessage ! 0 = CHR '' '' \<or> newLogMessage ! 0 = CHR 0x09))"

text \<open>
  Lines 228 to 231: the metrics update, run after an entry was published by
  \<open>flushOrBufferLogs\<close>. The delay is computed from the event that has just arrived.
\<close>

definition updateStats :: "int \<Rightarrow> MapStr \<Rightarrow> Journalbeat \<Rightarrow> error + Journalbeat" where
  "updateStats now event jb =
     (if MetricsEnabled (config jb) then
        (case logMessagesPublished jb of
           None \<Rightarrow> Inl NilPointerPanic
         | Some n \<Rightarrow>
             (case assertInt64 (event ''utcTimestamp'') of
                None \<Rightarrow> Inl (TypeAssertionPanic ''utcTimestamp'')
              | Some utc \<Rightarrow>
                  (case logMessageDelay jb of
                     None \<Rightarrow> Inl NilPointerPanic
                   | Some _ \<Rightarrow>
                       Inr (jb\<lparr>logMessagesPublished := Some (n + 1),
                               logMessageDelay :=
                                 Some (Unix_seconds now - quo utc microseconds)\<rparr>))))
      else Inr jb)"

text \<open>
  \<open>flushOrBufferLogs\<close>, lines 199 to 234. \<open>now\<close> is the reading of \<open>time.Now()\<close> during
  the call. The event maps are values here; in Go the buffer holds a reference to the map of
  the event it was created from, and no other reference to that map is written through.
\<close>

definition flushOrBufferLogs :: "int \<Rightarrow> MapStr \<Rightarrow> Journalbeat \<Rightarrow> error + Journalbeat" where
  "flushOrBufferLogs now event jb =
     (case assertString (event ''message'') of
        None \<Rightarrow> Inl (TypeAssertionPanic ''message'')
      | Some newLogMessage \<Rightarrow>
     (case assertString (event ''logBufferingType'') of
        None \<Rightarrow> Inl (TypeAssertionPanic ''logBufferingType'')
      | Some key \<Rightarrow>
          if startsWithSpaceOrTab newLogMessage then
            (case journalTypeOutstandingLogBuffer jb key of
               Some oldLog \<Rightarrow>
                 (case assertString (logEvent oldLog ''message'') of
                    None \<Rightarrow> Inl (TypeAssertionPanic ''message'')
                  | Some oldMessage \<Rightarrow>
                      Inr (jb\<lparr>journalTypeOutstandingLogBuffer :=
                        (journalTypeOutstandingLogBuffer jb)(key \<mapsto>
                           oldLog\<lparr>logEvent := (logEvent oldLog)(''message'' \<mapsto>
                                      VStr (oldMessage @ ''\<newline>'' @ newLogMessage)),
                                   time := now\<rparr>)\<rparr>))
             | None \<Rightarrow>
                 Inr (jb\<lparr>journalTypeOutstandingLogBuffer :=
                   (journalTypeOutstandingLogBuffer jb)(key \<mapsto>
                      \<lparr>time = now, logEvent = event, logType = key\<rparr>)\<rparr>))
          else
            (let oldLogBuffer = journalTypeOutstandingLogBuffer jb key;
                 jb1 = jb\<lparr>journalTypeOutstandingLogBuffer :=
                   (journalTypeOutstandingLogBuffer jb)(key \<mapsto>
                      \<lparr>time = now, logEvent = event, logType = key\<rparr>)\<rparr>
             in case oldLogBuffer of
                  None \<Rightarrow> Inr jb1
                | Some old \<Rightarrow>
                    updateStats now event (jb1\<lparr>client := client jb1 @ [logEvent old]\<rparr>))))"

text \<open>
  The test of line 190: the entry has been in the buffer for at least the flush interval.
\<close>

definition isStale :: "Config \<Rightarrow> int \<Rightarrow> LogBuffer \<Rightarrow> bool" where
  "isStale cfg now logBuffer =
     (Seconds (Sub now (time logBuffer)) \<ge> Seconds (FlushLogInterval cfg))"

text \<open>
  One iteration of the loop of \<open>flushStaleLogMessages\<close> (lines 190 to 195), for the key
  \<open>key\<close> (the loop variable \<open>logType\<close>) and the clock reading \<open>now\<close> of that iteration. The event is published and
  the entry deleted before the cursor is asserted to be a string.
\<close>

definition flushStaleEntry :: "int \<Rightarrow> string \<Rightarrow> Journalbeat \<Rightarrow> error + Journalbeat" where
  "flushStaleEntry now key jb =
     (case journalTypeOutstandingLogBuffer jb key of
        None \<Rightarrow> Inr jb
      | Some logBuffer \<Rightarrow>
          if isStale (config jb) now logBuffer then
            (case assertString (logEvent logBuffer ''cursor'') of
               None \<Rightarrow> Inl (TypeAssertionPanic ''cursor'')
             | Some cursor \<Rightarrow>
                 Inr (jb\<lparr>client := client jb @ [logEvent logBuffer],
                         journalTypeOutstandingLogBuffer :=
                           (journalTypeOutstandingLogBuffer jb)(key := None),
                         cursorChan := cursorChan jb @ [cursor]\<rparr>))
          else Inr jb)"

text \<open>
  \<open>flushStaleLogMessages\<close>, lines 188 to 197. Go ranges over the map in an unspecified
  order and reads the clock in every iteration; \<open>visits\<close> is that run: the keys in the
  order the loop reaches them, each with the clock reading of its iteration. Only the
  entry being visited is ever deleted, so the loop reaches every key of the map once.
\<close>

fun flushStaleLogMessages :: "(string \<times> int) list \<Rightarrow> Journalbeat \<Rightarrow> error + Journalbeat" where
  "flushStaleLogMessages [] jb = Inr jb"
| "flushStaleLogMessages ((key, now) # visits) jb =
     (case flushStaleEntry now key jb of
        Inl e \<Rightarrow> Inl e
      | Inr jb' \<Rightarrow> flushStaleLogMessages visits jb')"

text \<open>
  \<open>logProcessor\<close>, lines 237 to 251: the loop selects between a tick, which runs
  \<open>flushStaleLogMessages\<close>, and an event from \<open>incomingLogMessages\<close>, which runs
  \<open>flushOrBufferLogs\<close>. The loop has no exit; the model runs it over a finite sequence of
  selected cases, each with the clock readings of its call.
\<close>

datatype selected = Tick "(string \<times> int) list" | ChannelEvent int MapStr

fun logProcessor :: "selected list \<Rightarrow> Journalbeat \<Rightarrow> error + Journalbeat" where
  "logProcessor [] jb = Inr jb"
| "logProcessor (Tick visits # rest) jb =
     (case flushStaleLogMessages visits jb of
        Inl e \<Rightarrow> Inl e
      | Inr jb' \<Rightarrow> logProcessor rest jb')"
| "logProcessor (ChannelEvent now channelEvent # rest) jb =
     (case flushOrBufferLogs now channelEvent jb of
        Inl e \<Rightarrow> Inl e
      | Inr jb' \<Rightarrow> logProcessor rest jb')"

text \<open>
  The struct that \<open>New\<close> builds (lines 172 to 178): nothing published, nothing buffered,
  and the metrics objects still nil.
\<close>

definition New :: "Config \<Rightarrow> Journalbeat" where
  "New cfg =
     \<lparr>config = cfg, client = [], cursorChan = [],
      journalTypeOutstandingLogBuffer = Map.empty,
      logMessagesPublished = None, logMessageDelay = None\<rparr>"





text \<open>Sample data: a configuration with a flush interval of 30 seconds, and an event.\<close>

definition sampleConfig :: Config where
  "sampleConfig =
     \<lparr>FlushLogInterval = 30000000000, MetricsEnabled = False, DefaultType = ''journal''\<rparr>"

definition sampleEvent :: "string \<Rightarrow> string \<Rightarrow> string \<Rightarrow> MapStr" where
  "sampleEvent message key cursor =
     [''message'' \<mapsto> VStr message, ''logBufferingType'' \<mapsto> VStr key,
      ''cursor'' \<mapsto> VStr cursor]"

section \<open>The cursor writer\<close>

text \<open>
  \<open>saveCursorState\<close>, lines 140 to 146. \<open>file\<close> is the sequence of contents handed to
  \<open>ioutil.WriteFile\<close> for the cursor state file, oldest first; a write that fails is
  logged and changes nothing else.
\<close>

definition saveCursorState :: "string \<Rightarrow> string list \<Rightarrow> string list" where
  "saveCursorState cursor file = (if cursor \<noteq> [] then file @ [cursor] else file)"

text \<open>
  The loop of lines 155 to 161. \<open>received\<close> is what the loop receives from
  \<open>jb.cursorChan\<close> until the channel is closed, each value with the outcome of the
  \<open>select\<close> that follows it: \<open>True\<close> when a tick was pending. The loop variable is
  the function-level \<open>cursor\<close>, so after the loop it holds the last value received.
\<close>

fun rangeCursorChan :: "(string \<times> bool) list \<Rightarrow> string \<Rightarrow> string list \<Rightarrow> string \<times> string list" where
  "rangeCursorChan [] cursor file = (cursor, file)"
| "rangeCursorChan ((c, tick) # received) cursor file =
     rangeCursorChan received c (if tick then saveCursorState c file else file)"

text \<open>
  \<open>writeCursorLoop\<close>, lines 138 to 162, for a run in which \<open>Run\<close> closes the channel:
  \<open>cursor\<close> starts as the empty string, and the deferred call saves it once the loop has
  ended. The result is every write to the cursor state file, in order.
\<close>

definition writeCursorLoop :: "(string \<times> bool) list \<Rightarrow> string list" where
  "writeCursorLoop received =
     (case rangeCursorChan received [] [] of
        (cursor, file) \<Rightarrow> saveCursorState cursor file)"

section \<open>Timestamps\<close>

text \<open>
  \<open>strconv.ParseInt(s, 10, 64)\<close>: an optional sign, then one or more decimal digits, and
  a value within int64; \<open>None\<close> where Go returns an error (syntax or range).
\<close>

definition isDigit :: "char \<Rightarrow> bool" where
  "isDigit c = (48 \<le> (of_char c :: nat) \<and> (of_char c :: nat) \<le> 57)"

definition digitsValue :: "string \<Rightarrow> int" where
  "digitsValue ds = foldl (\<lambda>a c. a * 10 + (of_char c - 48)) 0 ds"

definition ParseInt :: "string \<Rightarrow> int option" where
  "ParseInt s =
     (if s = [] then None
      else
        let neg = (hd s = CHR ''-'');
            ds = (if hd s = CHR ''+'' \<or> hd s = CHR ''-'' then tl s else s)
        in if ds = [] \<or> \<not> list_all isDigit ds then None
           else
             let un = digitsValue ds
             in if \<not> neg \<and> un \<ge> 2 ^ 63 then None
                else if neg \<and> un > 2 ^ 63 then None
                else Some (if neg then - un else un))"

text \<open>
  A \<open>time.Time\<close> as \<open>time.Unix\<close> builds it: seconds since the epoch and nanoseconds
  within the second. \<open>time.Unix\<close> brings the nanoseconds into the range from 0 up to
  999999999.
\<close>

record Time =
  sec :: int
  nsec :: int

definition Unix :: "int \<Rightarrow> int \<Rightarrow> Time" where
  "Unix s ns =
     (if ns < 0 \<or> ns \<ge> 1000000000 then
        let n = quo ns 1000000000;
            s1 = s + n;
            ns1 = ns - n * 1000000000
        in if ns1 < 0 then \<lparr>sec = s1 - 1, nsec = ns1 + 1000000000\<rparr>
           else \<lparr>sec = s1, nsec = ns1\<rparr>
      else \<lparr>sec = s, nsec = ns\<rparr>)"

text \<open>
  The calendar date of a day number (days since 1970-01-01) in the proleptic Gregorian
  calendar, as \<open>Time.Date\<close> reports it: year, month, day.
\<close>

definition civil :: "int \<Rightarrow> int \<times> int \<times> int" where
  "civil days =
     (let z = days + 719468;
          era = z div 146097;
          doe = z - era * 146097;
          yoe = (doe - doe div 1460 + doe div 36524 - doe div 146096) div 365;
          doy = doe - (365 * yoe + yoe div 4 - yoe div 100);
          mp = (5 * doy + 2) div 153;
          d = doy - (153 * mp + 2) div 5 + 1;
          m = (if mp < 10 then mp + 3 else mp - 9);
          y = yoe + era * 400 + (if m \<le> 2 then 1 else 0)
      in (y, m, d))"

text \<open>\<open>appendInt\<close> of the time package: decimal, zero-padded to \<open>width\<close>, sign first.\<close>

function decimal :: "int \<Rightarrow> string" where
  "decimal n =
     (if n < 10 then [char_of (48 + n)]
      else decimal (n div 10) @ [char_of (48 + n mod 10)])"
  by pat_completeness auto
termination
  by (relation "measure nat") auto

declare decimal.simps [simp del]

definition appendInt :: "int \<Rightarrow> nat \<Rightarrow> string" where
  "appendInt x width =
     (let ds = decimal \<bar>x\<bar>
      in (if x < 0 then ''-'' else []) @ replicate (width - length ds) CHR ''0'' @ ds)"

text \<open>
  The elements of a layout that \<open>Time.Format\<close> recognises. \<open>stdFracSecond0 n\<close> and
  \<open>stdFracSecond9 n\<close> are a separator followed by \<open>n\<close> zeros or nines. The elements that
  print names or a zone (\<open>Jan\<close>, \<open>Mon\<close>, \<open>MST\<close>, \<open>PM\<close>, \<open>_2\<close>, \<open>-0700\<close>, \<open>Z07:00\<close>,
  \<open>002\<close>) are recognised, and not rendered by this model: \<open>stdUnsupported\<close>.
\<close>

datatype std =
    stdLongYear | stdYear | stdZeroMonth | stdNumMonth | stdZeroDay | stdDay
  | stdHour | stdZeroHour12 | stdHour12 | stdZeroMinute | stdMinute
  | stdZeroSecond | stdSecond | stdFracSecond0 char nat | stdFracSecond9 char nat
  | stdUnsupported

definition hasPrefix :: "string \<Rightarrow> string \<Rightarrow> bool" where
  "hasPrefix p l = (take (length p) l = p)"

text \<open>
  One step of \<open>nextStdChunk\<close>: the element that starts at the head of the layout, with the
  number of layout bytes it takes, or \<open>None\<close> when the head is an ordinary byte.
\<close>

definition stdChunkAt :: "string \<Rightarrow> (std \<times> nat) option" where
  "stdChunkAt l =
     (case l of
        [] \<Rightarrow> None
      | c # r \<Rightarrow>
          if c = CHR ''J'' then (if hasPrefix ''Jan'' l then Some (stdUnsupported, 3) else None)
          else if c = CHR ''M'' then
            (if hasPrefix ''Mon'' l \<or> hasPrefix ''MST'' l then Some (stdUnsupported, 3) else None)
          else if c = CHR ''0'' then
            (if hasPrefix ''01'' l then Some (stdZeroMonth, 2)
             else if hasPrefix ''02'' l then Some (stdZeroDay, 2)
             else if hasPrefix ''03'' l then Some (stdZeroHour12, 2)
             else if hasPrefix ''04'' l then Some (stdZeroMinute, 2)
             else if hasPrefix ''05'' l then Some (stdZeroSecond, 2)
             else if hasPrefix ''06'' l then Some (stdYear, 2)
             else if hasPrefix ''002'' l then Some (stdUnsupported, 3)
             else None)
          else if c = CHR ''1'' then
            (if hasPrefix ''15'' l then Some (stdHour, 2) else Some (stdNumMonth, 1))
          else if c = CHR ''2'' then
            (if hasPrefix ''2006'' l then Some (stdLongYear, 4) else Some (stdDay, 1))
          else if c = CHR ''_'' then
            (if hasPrefix ''_2'' l \<or> hasPrefix ''__2'' l then Some (stdUnsupported, 2) else None)
          else if c = CHR ''3'' then Some (stdHour12, 1)
          else if c = CHR ''4'' then Some (stdMinute, 1)
          else if c = CHR ''5'' then Some (stdSecond, 1)
          else if c = CHR ''P'' then (if hasPrefix ''PM'' l then Some (stdUnsupported, 2) else None)
          else if c = CHR ''p'' then (if hasPrefix ''pm'' l then Some (stdUnsupported, 2) else None)
          else if c = CHR ''-'' then (if hasPrefix ''-07'' l then Some (stdUnsupported, 3) else None)
          else if c = CHR ''Z'' then (if hasPrefix ''Z07'' l then Some (stdUnsupported, 3) else None)
          else if c = CHR ''.'' \<or> c = CHR '','' then
            (case r of
               [] \<Rightarrow> None
             | ch # _ \<Rightarrow>
                 if ch = CHR ''0'' \<or> ch = CHR ''9'' then
                   (let n = length (takeWhile (\<lambda>x. x = ch) r);
                        after = drop n r
                    in if after \<noteq> [] \<and> isDigit (hd after) then None
                       else Some (if ch = CHR ''0'' then stdFracSecond0 c n
                                  else stdFracSecond9 c n, Suc n))
                 else None)
          else None)"

text \<open>
  What \<open>Time.Format\<close> appends for one element. \<open>off\<close> is the offset of the time's location
  in seconds east of UTC; the date and the clock are those of \<open>sec t + off\<close>.
\<close>

definition hour12 :: "int \<Rightarrow> int" where
  "hour12 h = (if h mod 12 = 0 then 12 else h mod 12)"

definition formatNano :: "int \<Rightarrow> char \<Rightarrow> nat \<Rightarrow> bool \<Rightarrow> string" where
  "formatNano ns separator n trim =
     (let buf = appendInt ns 9;
          k = min n 9;
          shown = (if trim then rev (dropWhile (\<lambda>x. x = CHR ''0'') (rev (take k buf)))
                   else take k buf)
      in if trim \<and> shown = [] then [] else separator # shown)"

definition appendStd :: "int \<Rightarrow> Time \<Rightarrow> std \<Rightarrow> string option" where
  "appendStd off t s =
     (let abs = sec t + off;
          (year, month, day) = civil (abs div 86400);
          hour = (abs mod 86400) div 3600;
          minute = (abs mod 3600) div 60;
          second = abs mod 60
      in case s of
           stdLongYear \<Rightarrow> Some (appendInt year 4)
         | stdYear \<Rightarrow> Some (appendInt (rem year 100) 2)
         | stdZeroMonth \<Rightarrow> Some (appendInt month 2)
         | stdNumMonth \<Rightarrow> Some (appendInt month 0)
         | stdZeroDay \<Rightarrow> Some (appendInt day 2)
         | stdDay \<Rightarrow> Some (appendInt day 0)
         | stdHour \<Rightarrow> Some (appendInt hour 2)
         | stdZeroHour12 \<Rightarrow> Some (appendInt (hour12 hour) 2)
         | stdHour12 \<Rightarrow> Some (appendInt (hour12 hour) 0)
         | stdZeroMinute \<Rightarrow> Some (appendInt minute 2)
         | stdMinute \<Rightarrow> Some (appendInt minute 0)
         | stdZeroSecond \<Rightarrow> Some (appendInt second 2)
         | stdSecond \<Rightarrow> Some (appendInt second 0)
         | stdFracSecond0 sep n \<Rightarrow> Some (formatNano (nsec t) sep n False)
         | stdFracSecond9 sep n \<Rightarrow> Some (formatNano (nsec t) sep n True)
         | stdUnsupported \<Rightarrow> None)"

text \<open>
  \<open>Time.Format\<close>: the layout is read from the left; an element is replaced by its
  rendering and every other byte is copied. \<open>skip\<close> counts the layout bytes that still
  belong to the element rendered last. The result is \<open>None\<close> for a layout with an
  element this model does not render.
\<close>

fun formatFrom :: "int \<Rightarrow> Time \<Rightarrow> nat \<Rightarrow> string \<Rightarrow> string option" where
  "formatFrom off t skip [] = Some []"
| "formatFrom off t skip (c # l) =
     (if skip > 0 then formatFrom off t (skip - 1) l
      else
        (case stdChunkAt (c # l) of
           None \<Rightarrow> map_option ((#) c) (formatFrom off t 0 l)
         | Some (s, n) \<Rightarrow>
             (case appendStd off t s of
                None \<Rightarrow> None
              | Some out \<Rightarrow> map_option ((@) out) (formatFrom off t (n - 1) l))))"

definition Format :: "int \<Rightarrow> Time \<Rightarrow> string \<Rightarrow> string option" where
  "Format off t layout = formatFrom off t 0 layout"

text \<open>
  \<open>convertMicrosecondsEpochToISO8601\<close>, lines 253 to 258. \<open>time.Unix\<close> returns a time in
  the local zone; \<open>loc\<close> gives the offset of that zone, in seconds east of UTC, at a Unix
  time.
\<close>

definition convertMicrosecondsEpochToISO8601 :: "(int \<Rightarrow> int) \<Rightarrow> int \<Rightarrow> string" where
  "convertMicrosecondsEpochToISO8601 loc microsecondsEpoch =
     (let tmSecs = quo microsecondsEpoch microseconds;
          tmUSecs = rem microsecondsEpoch microseconds;
          tm = Unix tmSecs (tmUSecs * microsToNanos)
      in case Format (loc (sec tm)) tm ''2006-01-02T15:04:05.760738998Z'' of
           Some str \<Rightarrow> str
         | None \<Rightarrow> [])"

section \<open>The normalizer: the loop body of Run\<close>

text \<open>
  A \<open>sdjournal.JournalEntry\<close>: the fields of the record, its cursor and its realtime
  timestamp (a uint64 of microseconds).
\<close>

record JournalEntry =
  Fields :: "string \<rightharpoonup> string"
  Cursor :: string
  RealtimeTimestamp :: "64 word"

definition containerTagField :: string where "containerTagField = ''CONTAINER_TAG''"
definition containerIdField :: string where "containerIdField = ''CONTAINER_ID''"
definition tagField :: string where "tagField = ''SYSLOG_IDENTIFIER''"
definition processField :: string where "processField = ''_PID''"
definition hostNameField :: string where "hostNameField = ''_HOST_NAME''"
definition messageField :: string where "messageField = ''MESSAGE''"
definition timestampField :: string where "timestampField = ''_SOURCE_REALTIME_TIMESTAMP''"

text \<open>Indexing a Go \<open>map[string]string\<close>: a key that is absent reads as the empty string.\<close>

definition index :: "(string \<rightharpoonup> string) \<Rightarrow> string \<Rightarrow> string" where
  "index m k = (case m k of None \<Rightarrow> [] | Some v \<Rightarrow> v)"

text \<open>
  The body of the loop of \<open>Run\<close>, lines 322 to 359: the event that is then sent on
  \<open>incomingLogMessages\<close>. \<open>MapStrFromJournalEntry\<close> is defined in another file of the
  package; it is a parameter here, applied to the entry and the selected fields (the three
  configuration flags it also takes are part of the parameter). \<open>int64(x)\<close> of a uint64
  reads the same 64 bits as a signed number.
\<close>

definition Run_body ::
  "(JournalEntry \<Rightarrow> string list \<Rightarrow> MapStr) \<Rightarrow> Config \<Rightarrow> (int \<Rightarrow> int) \<Rightarrow> JournalEntry \<Rightarrow> MapStr" where
  "Run_body MapStrFromJournalEntry cfg loc rawEvent =
     (let commonFields = [hostNameField, messageField];
          event1 =
            (if Fields rawEvent containerIdField \<noteq> None then
               (MapStrFromJournalEntry rawEvent
                  (commonFields @ [containerTagField, containerIdField]))
                 (''type'' \<mapsto> VStr ''container'',
                  ''logBufferingType'' \<mapsto> VStr (index (Fields rawEvent) containerIdField))
             else
               (MapStrFromJournalEntry rawEvent (commonFields @ [tagField, processField]))
                 (''type'' \<mapsto> VStr (index (Fields rawEvent) tagField),
                  ''logBufferingType'' \<mapsto> VStr (index (Fields rawEvent) processField)));
          event2 = event1(''input_type'' \<mapsto> VStr (DefaultType cfg),
                          ''cursor'' \<mapsto> VStr (Cursor rawEvent));
          tm =
            (case Fields rawEvent timestampField of
               Some tmStr \<Rightarrow>
                 (case ParseInt tmStr of
                    Some tm \<Rightarrow> tm
                  | None \<Rightarrow> sint (RealtimeTimestamp rawEvent))
             | None \<Rightarrow> sint (RealtimeTimestamp rawEvent))
      in event2(''@timestamp'' \<mapsto> VStr (convertMicrosecondsEpochToISO8601 loc tm),
                ''utcTimestamp'' \<mapsto> VInt tm))"

text \<open>
  A buffer that holds one entry, for the key \<open>k\<close>: the event with message \<open>A\<close>, created
  at time 0.
\<close>

definition sampleBuffered :: Journalbeat where
  "sampleBuffered =
     (New sampleConfig)\<lparr>journalTypeOutstandingLogBuffer :=
        [''k'' \<mapsto> \<lparr>time = 0, logEvent = sampleEvent ''A'' ''k'' ''c1'', logType = ''k''\<rparr>]\<rparr>"





section \<open>Properties of the buffering engine\<close>

subsection \<open>The three branches of flushOrBufferLogs\<close>



lemma startsWithSpaceOrTab_hd:
  "startsWithSpaceOrTab m \<longleftrightarrow> m \<noteq> [] \<and> (hd m = CHR '' '' \<or> hd m = CHR 0x09)"
  by (cases m) (auto simp: startsWithSpaceOrTab_def)

lemma updateStats_frame:
  "updateStats now event jb = Inr jb' \<Longrightarrow>
     client jb' = client jb \<and> cursorChan jb' = cursorChan jb \<and> config jb' = config jb \<and>
     journalTypeOutstandingLogBuffer jb' = journalTypeOutstandingLogBuffer jb"
  by (auto simp: updateStats_def split: if_splits option.splits)


lemma flushOrBufferLogs_continuation:
  assumes "event ''message'' = Some (VStr m)" "event ''logBufferingType'' = Some (VStr k)"
    "startsWithSpaceOrTab m"
    "journalTypeOutstandingLogBuffer jb k = Some old" "logEvent old ''message'' = Some (VStr m0)"
  shows "flushOrBufferLogs now event jb =
     Inr (jb\<lparr>journalTypeOutstandingLogBuffer := (journalTypeOutstandingLogBuffer jb)(k \<mapsto>
            old\<lparr>logEvent := (logEvent old)(''message'' \<mapsto> VStr (m0 @ ''\<newline>'' @ m)),
                time := now\<rparr>)\<rparr>)"
  using assms by (simp add: flushOrBufferLogs_def)

lemma flushOrBufferLogs_fresh:
  assumes "event ''message'' = Some (VStr m)" "event ''logBufferingType'' = Some (VStr k)"
    "journalTypeOutstandingLogBuffer jb k = None"
  shows "flushOrBufferLogs now event jb =
     Inr (jb\<lparr>journalTypeOutstandingLogBuffer := (journalTypeOutstandingLogBuffer jb)(k \<mapsto>
            \<lparr>time = now, logEvent = event, logType = k\<rparr>)\<rparr>)"
  using assms by (simp add: flushOrBufferLogs_def Let_def)

lemma flushOrBufferLogs_complete:
  assumes "event ''message'' = Some (VStr m)" "event ''logBufferingType'' = Some (VStr k)"
    "\<not> startsWithSpaceOrTab m"
    "journalTypeOutstandingLogBuffer jb k = Some old"
  shows "flushOrBufferLogs now event jb =
     updateStats now event
       (jb\<lparr>journalTypeOutstandingLogBuffer := (journalTypeOutstandingLogBuffer jb)(k \<mapsto>
            \<lparr>time = now, logEvent = event, logType = k\<rparr>),
           client := client jb @ [logEvent old]\<rparr>)"
  using assms by (simp add: flushOrBufferLogs_def Let_def)

lemma flushOrBufferLogs_cursorChan:
  "flushOrBufferLogs now event jb = Inr jb' \<Longrightarrow> cursorChan jb' = cursorChan jb"
  by (auto simp: flushOrBufferLogs_def Let_def split: option.splits if_splits
      dest!: updateStats_frame)


subsection \<open>The continuation test\<close>

text \<open>
  Claim C9. An event is handled as a continuation exactly when its message is not empty and
  starts with a space or a tab. With an entry \<open>old\<close> already buffered for the key, the two
  ways of handling an event differ in what they leave behind: a continuation publishes
  nothing and extends the message of \<open>old\<close>; any other event, the empty message included,
  publishes the event of \<open>old\<close> and puts itself in the buffer.
\<close>

theorem continuation_iff_leading_space_or_tab:
  assumes "event ''message'' = Some (VStr m)" and "event ''logBufferingType'' = Some (VStr k)"
    and "journalTypeOutstandingLogBuffer jb k = Some old"
    and "logEvent old ''message'' = Some (VStr m0)"
    and "flushOrBufferLogs now event jb = Inr jb'"
  shows "((client jb' = client jb \<and>
           journalTypeOutstandingLogBuffer jb' k =
             Some (old\<lparr>logEvent := (logEvent old)(''message'' \<mapsto> VStr (m0 @ ''\<newline>'' @ m)),
                       time := now\<rparr>))
          \<longleftrightarrow> (m \<noteq> [] \<and> (hd m = CHR '' '' \<or> hd m = CHR 0x09))) \<and>
         ((client jb' = client jb @ [logEvent old] \<and>
           journalTypeOutstandingLogBuffer jb' k =
             Some \<lparr>time = now, logEvent = event, logType = k\<rparr>)
          \<longleftrightarrow> \<not> (m \<noteq> [] \<and> (hd m = CHR '' '' \<or> hd m = CHR 0x09)))"
proof (cases "startsWithSpaceOrTab m")
  case True
  with assms have "jb' = jb\<lparr>journalTypeOutstandingLogBuffer :=
      (journalTypeOutstandingLogBuffer jb)(k \<mapsto>
         old\<lparr>logEvent := (logEvent old)(''message'' \<mapsto> VStr (m0 @ ''\<newline>'' @ m)),
             time := now\<rparr>)\<rparr>"
    by (simp add: flushOrBufferLogs_continuation)
  with True show ?thesis by (simp add: startsWithSpaceOrTab_hd)
next
  case False
  with assms have "updateStats now event
       (jb\<lparr>journalTypeOutstandingLogBuffer := (journalTypeOutstandingLogBuffer jb)(k \<mapsto>
            \<lparr>time = now, logEvent = event, logType = k\<rparr>),
           client := client jb @ [logEvent old]\<rparr>) = Inr jb'"
    by (simp add: flushOrBufferLogs_complete)
  from updateStats_frame[OF this] False show ?thesis
    by (simp add: startsWithSpaceOrTab_hd)
qed

text \<open>
  The theorem at the sample buffer: the event with message \<open>B\<close> after a space is merged,
  the event with message \<open>B\<close> replaces the entry and publishes it.
\<close>

theorem continuation_iff_leading_space_or_tab_witness:
  "flushOrBufferLogs 1000 (sampleEvent '' B'' ''k'' ''c2'') sampleBuffered =
     Inr (sampleBuffered\<lparr>journalTypeOutstandingLogBuffer :=
        (journalTypeOutstandingLogBuffer sampleBuffered)(''k'' \<mapsto>
           \<lparr>time = 1000,
            logEvent = (sampleEvent ''A'' ''k'' ''c1'')(''message'' \<mapsto> VStr ''A\<newline> B''),
            logType = ''k''\<rparr>)\<rparr>) \<and>
   hd '' B'' = CHR '' '' \<and>
   flushOrBufferLogs 1000 (sampleEvent ''B'' ''k'' ''c2'') sampleBuffered =
     Inr (sampleBuffered\<lparr>journalTypeOutstandingLogBuffer :=
        (journalTypeOutstandingLogBuffer sampleBuffered)(''k'' \<mapsto>
           \<lparr>time = 1000, logEvent = sampleEvent ''B'' ''k'' ''c2'', logType = ''k''\<rparr>),
        client := [sampleEvent ''A'' ''k'' ''c1'']\<rparr>) \<and>
   hd ''B'' \<noteq> CHR '' ''"
proof -
  let ?old = "\<lparr>time = 0, logEvent = sampleEvent ''A'' ''k'' ''c1'', logType = ''k''\<rparr>"
  let ?merged = "sampleBuffered\<lparr>journalTypeOutstandingLogBuffer :=
        (journalTypeOutstandingLogBuffer sampleBuffered)(''k'' \<mapsto>
           \<lparr>time = 1000,
            logEvent = (sampleEvent ''A'' ''k'' ''c1'')(''message'' \<mapsto> VStr ''A\<newline> B''),
            logType = ''k''\<rparr>)\<rparr>"
  let ?replaced = "sampleBuffered\<lparr>journalTypeOutstandingLogBuffer :=
        (journalTypeOutstandingLogBuffer sampleBuffered)(''k'' \<mapsto>
           \<lparr>time = 1000, logEvent = sampleEvent ''B'' ''k'' ''c2'', logType = ''k''\<rparr>),
        client := [sampleEvent ''A'' ''k'' ''c1'']\<rparr>"
  have old: "journalTypeOutstandingLogBuffer sampleBuffered ''k'' = Some ?old"
    by (simp add: sampleBuffered_def)
  have m0: "logEvent ?old ''message'' = Some (VStr ''A'')"
    by (simp add: sampleEvent_def)
  have r1: "flushOrBufferLogs 1000 (sampleEvent '' B'' ''k'' ''c2'') sampleBuffered = Inr ?merged"
    by (simp add: flushOrBufferLogs_def sampleEvent_def sampleBuffered_def New_def
        startsWithSpaceOrTab_def)
  have r2: "flushOrBufferLogs 1000 (sampleEvent ''B'' ''k'' ''c2'') sampleBuffered = Inr ?replaced"
    by (simp add: flushOrBufferLogs_def sampleEvent_def sampleBuffered_def New_def
        startsWithSpaceOrTab_def updateStats_def sampleConfig_def Let_def)
  have e1: "sampleEvent '' B'' ''k'' ''c2'' ''message'' = Some (VStr '' B'')"
    "sampleEvent '' B'' ''k'' ''c2'' ''logBufferingType'' = Some (VStr ''k'')"
    "sampleEvent ''B'' ''k'' ''c2'' ''message'' = Some (VStr ''B'')"
    "sampleEvent ''B'' ''k'' ''c2'' ''logBufferingType'' = Some (VStr ''k'')"
    by (simp_all add: sampleEvent_def)
  note a = continuation_iff_leading_space_or_tab [OF e1(1) e1(2) old m0 r1]
  note b = continuation_iff_leading_space_or_tab [OF e1(3) e1(4) old m0 r2]
  from a b r1 r2 show ?thesis by simp
qed

subsection \<open>A pass of flushStaleLogMessages\<close>




lemma flushStaleEntry_stale:
  assumes "journalTypeOutstandingLogBuffer jb k = Some b" "isStale (config jb) now b"
    "logEvent b ''cursor'' = Some (VStr c)"
  shows "flushStaleEntry now k jb =
     Inr (jb\<lparr>client := client jb @ [logEvent b],
             journalTypeOutstandingLogBuffer := (journalTypeOutstandingLogBuffer jb)(k := None),
             cursorChan := cursorChan jb @ [c]\<rparr>)"
  using assms by (simp add: flushStaleEntry_def)











subsection \<open>The sample run\<close>

lemma sampleEvent_fields:
  "sampleEvent m k c ''message'' = Some (VStr m)"
  "sampleEvent m k c ''logBufferingType'' = Some (VStr k)"
  "sampleEvent m k c ''cursor'' = Some (VStr c)"
  by (simp_all add: sampleEvent_def)

lemma sample_step1:
  "flushOrBufferLogs 0 (sampleEvent ''A'' ''k'' ''c1'') (New sampleConfig) = Inr sampleBuffered"
  by (simp add: flushOrBufferLogs_fresh [OF sampleEvent_fields(1,2)] New_def sampleBuffered_def)






subsection \<open>Merging a continuation line\<close>





text \<open>
  Claim C4. When a continuation line merges into the entry \<open>old\<close> buffered for its key, the
  entry's message becomes the old message, a newline and the new message, and its time
  becomes \<open>now\<close>. Every other field of the buffered event, the cursor among them, and the
  entry's \<open>logType\<close> stay as they were; no other key, nothing published, nothing sent on
  the cursor channel and no metric changes. So when the entry is later flushed as stale, the
  cursor that is sent is the one of the first line.
\<close>

theorem merge_changes_only_message_and_time:
  assumes "event ''message'' = Some (VStr m)" and "startsWithSpaceOrTab m"
    and "event ''logBufferingType'' = Some (VStr k)"
    and "journalTypeOutstandingLogBuffer jb k = Some old"
    and "logEvent old ''message'' = Some (VStr m0)"
  shows "\<exists>jb' b'. flushOrBufferLogs now event jb = Inr jb' \<and>
           journalTypeOutstandingLogBuffer jb' k = Some b' \<and>
           logEvent b' ''message'' = Some (VStr (m0 @ ''\<newline>'' @ m)) \<and>
           time b' = now \<and>
           logType b' = logType old \<and>
           (\<forall>f. f \<noteq> ''message'' \<longrightarrow> logEvent b' f = logEvent old f) \<and>
           logEvent b' ''cursor'' = logEvent old ''cursor'' \<and>
           (\<forall>k'. k' \<noteq> k \<longrightarrow>
              journalTypeOutstandingLogBuffer jb' k' = journalTypeOutstandingLogBuffer jb k') \<and>
           client jb' = client jb \<and> cursorChan jb' = cursorChan jb \<and>
           config jb' = config jb \<and>
           logMessagesPublished jb' = logMessagesPublished jb \<and>
           logMessageDelay jb' = logMessageDelay jb \<and>
           (\<forall>t c. isStale (config jb') t b' \<and> logEvent old ''cursor'' = Some (VStr c) \<longrightarrow>
              (\<exists>jb''. flushStaleEntry t k jb' = Inr jb'' \<and>
                 client jb'' = client jb @ [logEvent b'] \<and>
                 cursorChan jb'' = cursorChan jb @ [c]))"
proof -
  let ?b = "old\<lparr>logEvent := (logEvent old)(''message'' \<mapsto> VStr (m0 @ ''\<newline>'' @ m)),
                time := now\<rparr>"
  let ?jb = "jb\<lparr>journalTypeOutstandingLogBuffer :=
      (journalTypeOutstandingLogBuffer jb)(k \<mapsto> ?b)\<rparr>"
  have run: "flushOrBufferLogs now event jb = Inr ?jb"
    using assms by (simp add: flushOrBufferLogs_continuation)
  have kb: "journalTypeOutstandingLogBuffer ?jb k = Some ?b" by simp
  have reap: "\<exists>jb''. flushStaleEntry t k ?jb = Inr jb'' \<and>
      client jb'' = client jb @ [logEvent ?b] \<and> cursorChan jb'' = cursorChan jb @ [c]"
    if "isStale (config ?jb) t ?b" and "logEvent old ''cursor'' = Some (VStr c)" for t c
  proof -
    have "logEvent ?b ''cursor'' = Some (VStr c)" using that(2) by simp
    from flushStaleEntry_stale [OF kb that(1) this] show ?thesis by simp
  qed
  show ?thesis
    apply (rule exI [of _ ?jb])
    apply (rule exI [of _ ?b])
    using run reap by simp
qed

text \<open>The theorem at the sample buffer: the cursor stays \<open>c1\<close>, the new event had \<open>c2\<close>.\<close>

theorem merge_changes_only_message_and_time_witness:
  "\<exists>jb' b'. flushOrBufferLogs 1000 (sampleEvent '' B'' ''k'' ''c2'') sampleBuffered = Inr jb' \<and>
     journalTypeOutstandingLogBuffer jb' ''k'' = Some b' \<and>
     logEvent b' ''message'' = Some (VStr ''A\<newline> B'') \<and>
     logEvent b' ''cursor'' = Some (VStr ''c1'') \<and>
     time b' = 1000 \<and> client jb' = [] \<and> cursorChan jb' = []"
proof -
  let ?old = "\<lparr>time = 0, logEvent = sampleEvent ''A'' ''k'' ''c1'', logType = ''k''\<rparr>"
  have c: "startsWithSpaceOrTab '' B''" by (simp add: startsWithSpaceOrTab_def)
  have o: "journalTypeOutstandingLogBuffer sampleBuffered ''k'' = Some ?old"
    by (simp add: sampleBuffered_def)
  have m: "logEvent ?old ''message'' = Some (VStr ''A'')" by (simp add: sampleEvent_fields)
  note e = sampleEvent_fields [of "'' B''" "''k''" "''c2''"]
  from merge_changes_only_message_and_time [OF e(1) c e(2) o m, of 1000]
  obtain jb' b' where
    "flushOrBufferLogs 1000 (sampleEvent '' B'' ''k'' ''c2'') sampleBuffered = Inr jb'"
    "journalTypeOutstandingLogBuffer jb' ''k'' = Some b'"
    "logEvent b' ''message'' = Some (VStr (''A'' @ ''\<newline>'' @ '' B''))"
    "time b' = 1000"
    "logEvent b' ''cursor'' = logEvent ?old ''cursor''"
    "client jb' = client sampleBuffered" "cursorChan jb' = cursorChan sampleBuffered"
    by (elim exE conjE)
  then show ?thesis
    by (intro exI [of _ jb'] exI [of _ b'])
      (simp add: sampleEvent_fields sampleBuffered_def New_def)
qed

subsection \<open>Publishing on a completing event\<close>

text \<open>
  Claim C1 says that an entry published because a completing event arrived has its cursor
  forwarded to the cursor writer. On the code it is not: after the events \<open>A\<close> and \<open>B\<close>
  for one key, the event \<open>A\<close> has been published and nothing has been sent on
  \<open>cursorChan\<close>. (\<open>flushOrBufferLogs_cursorChan\<close> above: no call of
  \<open>flushOrBufferLogs\<close> ever sends.)
\<close>

theorem ingest_publishes_without_forwarding_marker:
  "map_sum id (\<lambda>jb. (client jb, cursorChan jb))
     (logProcessor
        [ChannelEvent 0 (sampleEvent ''A'' ''k'' ''c1''),
         ChannelEvent 1000 (sampleEvent ''B'' ''k'' ''c2'')]
        (New sampleConfig)) =
   Inr ([sampleEvent ''A'' ''k'' ''c1''], [])"
proof -
  let ?old = "\<lparr>time = 0, logEvent = sampleEvent ''A'' ''k'' ''c1'', logType = ''k''\<rparr>"
  have n: "\<not> startsWithSpaceOrTab ''B''" by (simp add: startsWithSpaceOrTab_def)
  have o: "journalTypeOutstandingLogBuffer sampleBuffered ''k'' = Some ?old"
    by (simp add: sampleBuffered_def)
  have "flushOrBufferLogs 1000 (sampleEvent ''B'' ''k'' ''c2'') sampleBuffered =
      Inr (sampleBuffered\<lparr>journalTypeOutstandingLogBuffer :=
             (journalTypeOutstandingLogBuffer sampleBuffered)(''k'' \<mapsto>
                \<lparr>time = 1000, logEvent = sampleEvent ''B'' ''k'' ''c2'', logType = ''k''\<rparr>),
           client := client sampleBuffered @ [logEvent ?old]\<rparr>)"
    unfolding flushOrBufferLogs_complete [OF sampleEvent_fields(1,2) n o]
    by (simp add: updateStats_def sampleBuffered_def New_def sampleConfig_def)
  then show ?thesis
    by (simp add: sample_step1) (simp add: sampleBuffered_def New_def)
qed

subsection \<open>The unchecked type assertions\<close>







end
